(* ===== verification/Prelude.thy ===== *)
theory Prelude
  imports Main
begin

text \<open>
  Shared vocabulary of the development.  The program (\<open>src/mini-island.js\<close>) reads
  attributes of DOM elements, identifies DOM nodes by object identity and folds over
  static node lists; this theory names the types for those notions, models the two
  DOM attribute queries the code calls (\<open>Element.hasAttribute\<close> and
  \<open>Element.getAttribute\<close>, platform API rather than code of the repository), declares
  the theorem collections the component theories fill, and proves the generic list
  lemmas the components share.
\<close>

section \<open>Types of the model\<close>

text \<open>A DOM node's identity (the JavaScript object reference).\<close>
type_synonym nid = nat

text \<open>
  The attribute list of an element, in document order.  An element never carries two
  attributes of the same name, so the first match is the only one.
\<close>
type_synonym attrs = "(string \<times> string) list"

section \<open>DOM attribute queries\<close>

definition hasAttribute :: "attrs \<Rightarrow> string \<Rightarrow> bool" where
  "hasAttribute as n \<longleftrightarrow> map_of as n \<noteq> None"

text \<open>\<open>getAttribute\<close> returns \<open>null\<close> (here \<open>None\<close>) for an absent attribute.\<close>
definition getAttribute :: "attrs \<Rightarrow> string \<Rightarrow> string option" where
  "getAttribute as n = map_of as n"

section \<open>Theorem collections\<close>

text \<open>
  \<open>wait_simps\<close> collects the equations that evaluate the wait primitives of the
  condition registry; \<open>dom_simps\<close> those of the DOM model.  Component proofs call
  \<open>simp add: wait_simps\<close> or \<open>simp add: dom_simps\<close>.
\<close>
named_theorems wait_simps "equations evaluating wait primitives"
named_theorems dom_simps "equations of the DOM tree model"

section \<open>Generic lemmas\<close>

lemma hasAttribute_getAttribute:
  "hasAttribute as n \<longleftrightarrow> (\<exists>v. getAttribute as n = Some v)"
  by (auto simp: hasAttribute_def getAttribute_def)

lemma hasAttribute_Cons [simp]:
  "hasAttribute ((k, v) # as) n \<longleftrightarrow> k = n \<or> hasAttribute as n"
  by (simp add: hasAttribute_def)

lemma getAttribute_Cons [simp]:
  "getAttribute ((k, v) # as) n = (if k = n then Some v else getAttribute as n)"
  by (simp add: getAttribute_def)

lemma hasAttribute_Nil [simp]: "\<not> hasAttribute [] n"
  by (simp add: hasAttribute_def)

lemma getAttribute_Nil [simp]: "getAttribute [] n = None"
  by (simp add: getAttribute_def)

text \<open>A fold whose every step leaves the state alone leaves it alone.\<close>

lemma fold_fixed:
  assumes "\<And>x. x \<in> set xs \<Longrightarrow> f x s = s"
  shows "fold f xs s = s"
  using assms by (induction xs) auto

text \<open>A fold of steps that each act through a constructor context acts inside it.\<close>

lemma fold_commute_map:
  assumes "\<And>x y. g (f x y) = h x (g y)"
  shows "g (fold f xs s) = fold h xs (g s)"
  using assms by (induction xs arbitrary: s) auto

text \<open>\<open>list_all\<close> of a mapped list, stated for the join over condition results.\<close>

lemma list_all_map_option:
  "list_all (case_option True P) (map (map_option f) xs) \<longleftrightarrow>
   list_all (case_option True (P \<circ> f)) xs"
  by (induction xs) (auto split: option.splits)

end
