(* ===== verification/Conditions.thy ===== *)
theory Conditions
  imports Prelude
begin

text \<open>
  The condition registry, class \<open>Conditions\<close> of \<open>src/mini-island.js\<close> (lines 43--132):
  the catalogue \<open>Conditions.map\<close> of named evaluators, the attribute scan
  \<open>getConditions\<close>/\<open>hasConditions\<close>, the three evaluators \<open>waitForIdle\<close>,
  \<open>waitForVisible\<close>, \<open>waitForMedia\<close>, and the promises they return.

  The platform facilities the evaluators test (\<open>'requestIdleCallback' in window\<close>,
  \<open>document.readyState\<close>, \<open>IntersectionObserver\<close>, \<open>matchMedia\<close>) are a record
  \<open>platform\<close>.  A promise returned by an evaluator is a value of \<open>wait\<close> that records which
  of its callbacks have run; an evaluator that returns \<open>undefined\<close> returns \<open>None\<close>.
  The browser's later callbacks (the \<open>load\<close> event, the idle callback, an intersection
  report, a media-query change) are values of \<open>event\<close>, and \<open>wait_step\<close> is what the
  callbacks the evaluator registered do with them.
\<close>

section \<open>The catalogue and the attribute scan\<close>

datatype condition = Idle | Visible | Media

text \<open>\<open>Object.keys(Conditions.map)\<close>: the keys in the order the object literal lists them.\<close>

definition conditions_keys :: "string list" where
  "conditions_keys = [''idle'', ''visible'', ''media'']"

text \<open>\<open>Conditions.map[key]\<close>: the evaluator stored under a key, if any.\<close>

definition Conditions_map :: "string \<Rightarrow> condition option" where
  "Conditions_map k =
     (if k = ''idle'' then Some Idle
      else if k = ''visible'' then Some Visible
      else if k = ''media'' then Some Media
      else None)"

text \<open>
  The loop of \<open>getConditions\<close>: for each key, if the node has the attribute
  \<open>client:<key>\<close>, store its value under the key.  \<open>result\<close> is an object whose keys are
  enumerated in insertion order, so it is an association list appended at the end.
  \<open>getAttribute\<close> of an attribute that \<open>hasAttribute\<close> reports is a string, so the test
  and the read are one case distinction.
\<close>

fun getConditions_loop ::
  "attrs \<Rightarrow> string list \<Rightarrow> (string \<times> string) list \<Rightarrow> (string \<times> string) list" where
  "getConditions_loop node [] result = result"
| "getConditions_loop node (c # cs) result =
     getConditions_loop node cs
       (case getAttribute node (''client:'' @ c) of
          None \<Rightarrow> result
        | Some v \<Rightarrow> result @ [(c, v)])"

definition getConditions :: "attrs \<Rightarrow> (string \<times> string) list" where
  "getConditions node = getConditions_loop node conditions_keys []"

definition hasConditions :: "attrs \<Rightarrow> bool" where
  "hasConditions node \<longleftrightarrow> length (getConditions node) > 0"

section \<open>The platform\<close>

text \<open>
  What the evaluators observe of the browser at the moment they run.
  \<open>matchMedia_matches q\<close> is \<open>window.matchMedia(q).matches\<close> at that moment.
\<close>

record platform =
  readyState_complete :: bool
  has_requestIdleCallback :: bool
  has_IntersectionObserver :: bool
  has_matchMedia :: bool
  matchMedia_matches :: "string \<Rightarrow> bool"
  has_customElements :: bool

section \<open>Wait primitives and the evaluators\<close>

text \<open>
  \<^item> \<open>IdleWait idle load\<close>: \<open>Promise.all([onIdle, onLoad])\<close>, with the states of its two
    inner promises;
  \<^item> \<open>VisibleWait observing done\<close>: the promise of \<open>waitForVisible\<close>, with whether the
    observer still observes the island and whether \<open>resolve\<close> has run;
  \<^item> \<open>MediaWait query done\<close>: the promise of \<open>waitForMedia\<close>, listening to the
    \<open>MediaQueryList\<close> of \<open>query\<close>.
\<close>

datatype wait =
    IdleWait bool bool
  | VisibleWait bool bool
  | MediaWait string bool

text \<open>
  \<open>waitForIdle\<close>: \<open>onLoad\<close> is resolved at once when \<open>document.readyState\<close> is
  \<open>complete\<close>, otherwise it waits for \<open>load\<close>; \<open>onIdle\<close> is resolved at once when
  \<open>requestIdleCallback\<close> is missing, otherwise it waits for the idle callback.
\<close>

definition waitForIdle :: "platform \<Rightarrow> wait option" where
  "waitForIdle p =
     (let onLoad = readyState_complete p;
          onIdle = (\<not> has_requestIdleCallback p)
      in Some (IdleWait onIdle onLoad))"

text \<open>\<open>waitForVisible\<close>: no promise at all without \<open>IntersectionObserver\<close>.\<close>

definition waitForVisible :: "platform \<Rightarrow> wait option" where
  "waitForVisible p =
     (if \<not> has_IntersectionObserver p then None
      else Some (VisibleWait True False))"

text \<open>
  \<open>waitForMedia\<close>: the default \<open>queryList\<close> matches; only a non-empty (truthy) query on a
  platform with \<open>matchMedia\<close> replaces it.  A matching list returns \<open>undefined\<close>.
\<close>

definition waitForMedia :: "platform \<Rightarrow> string \<Rightarrow> wait option" where
  "waitForMedia p query =
     (let matches =
        (if query \<noteq> [] \<and> has_matchMedia p then matchMedia_matches p query else True)
      in if matches then None else Some (MediaWait query False))"

text \<open>
  The evaluator stored under each key, applied as \<open>hydrate\<close> applies it:
  \<open>conditionFn(value, this)\<close>.  \<open>waitForIdle\<close> ignores both arguments,
  \<open>waitForVisible\<close> observes the island (\<open>el\<close>), \<open>waitForMedia\<close> reads the value.
\<close>

fun conditionFn :: "condition \<Rightarrow> platform \<Rightarrow> string \<Rightarrow> wait option" where
  "conditionFn Idle p v = waitForIdle p"
| "conditionFn Visible p v = waitForVisible p"
| "conditionFn Media p v = waitForMedia p v"

section \<open>Callbacks: how a wait primitive reacts to the browser\<close>

datatype event =
    LoadEvent                     \<comment> \<open>the window's \<open>load\<close> event\<close>
  | IdleCallback                  \<comment> \<open>\<open>requestIdleCallback\<close> grants its slot\<close>
  | Intersection bool             \<comment> \<open>an observer report; the flag is \<open>isIntersecting\<close>\<close>
  | MediaChange string bool       \<comment> \<open>a change of the query list of a query; new \<open>matches\<close>\<close>

text \<open>
  \<open>wait_step e w\<close>: what the callbacks registered by the evaluator do on \<open>e\<close>.  The
  observer callback resolves and unobserves only on an intersecting entry and only
  while it still observes; the media listener resolves on a change to matching.
\<close>

fun wait_step :: "event \<Rightarrow> wait \<Rightarrow> wait" where
  "wait_step IdleCallback (IdleWait i l) = IdleWait True l"
| "wait_step LoadEvent (IdleWait i l) = IdleWait i True"
| "wait_step (Intersection b) (VisibleWait obs d) =
     (if obs \<and> b then VisibleWait False True else VisibleWait obs d)"
| "wait_step (MediaChange q' m) (MediaWait q d) =
     (if q' = q \<and> m then MediaWait q True else MediaWait q d)"
| "wait_step e w = w"

text \<open>A promise is resolved; \<open>Promise.all\<close> resolves when both inner promises have.\<close>

fun resolved :: "wait \<Rightarrow> bool" where
  "resolved (IdleWait i l) \<longleftrightarrow> i \<and> l"
| "resolved (VisibleWait obs d) \<longleftrightarrow> d"
| "resolved (MediaWait q d) \<longleftrightarrow> d"

text \<open>An entry of the \<open>conditions\<close> array: \<open>undefined\<close> counts as already fulfilled.\<close>

definition settled :: "wait option \<Rightarrow> bool" where
  "settled w = (case w of None \<Rightarrow> True | Some x \<Rightarrow> resolved x)"

text \<open>\<open>Promise.all(conditions)\<close> has resolved.\<close>

definition Promise_all :: "wait option list \<Rightarrow> bool" where
  "Promise_all ws \<longleftrightarrow> list_all settled ws"

text \<open>An event reaches every pending primitive of an array.\<close>

definition deliver :: "event \<Rightarrow> wait option list \<Rightarrow> wait option list" where
  "deliver e ws = map (map_option (wait_step e)) ws"

text \<open>
  The reference specification of resolution after a sequence of callbacks: which
  events each primitive needs, with no mention of their order.
\<close>

fun resolved_after :: "event list \<Rightarrow> wait \<Rightarrow> bool" where
  "resolved_after es (IdleWait i l) \<longleftrightarrow>
     (i \<or> IdleCallback \<in> set es) \<and> (l \<or> LoadEvent \<in> set es)"
| "resolved_after es (VisibleWait obs d) \<longleftrightarrow> d \<or> obs \<and> Intersection True \<in> set es"
| "resolved_after es (MediaWait q d) \<longleftrightarrow> d \<or> MediaChange q True \<in> set es"

declare waitForIdle_def [wait_simps] waitForVisible_def [wait_simps]
  waitForMedia_def [wait_simps] settled_def [wait_simps] Promise_all_def [wait_simps]
  deliver_def [wait_simps]


section \<open>The attribute scan\<close>

lemma getConditions_loop_eq:
  "getConditions_loop node cs result =
     result @ List.map_filter (\<lambda>c. map_option (Pair c) (getAttribute node (''client:'' @ c))) cs"
  by (induction cs arbitrary: result)
     (simp_all split: option.splits)

lemma getConditions_unfold:
  "getConditions node =
     (case getAttribute node ''client:idle'' of None \<Rightarrow> [] | Some v \<Rightarrow> [(''idle'', v)]) @
     (case getAttribute node ''client:visible'' of None \<Rightarrow> [] | Some v \<Rightarrow> [(''visible'', v)]) @
     (case getAttribute node ''client:media'' of None \<Rightarrow> [] | Some v \<Rightarrow> [(''media'', v)])"
  by (simp add: getConditions_def getConditions_loop_eq conditions_keys_def
      split: option.splits)


lemma map_fst_map_filter_Pair:
  "map fst (List.map_filter (\<lambda>c. map_option (Pair c) (f c)) cs) =
     filter (\<lambda>c. f c \<noteq> None) cs"
  by (induction cs) (auto split: option.splits)

lemma map_fst_getConditions:
  "map fst (getConditions node) =
     filter (\<lambda>c. hasAttribute node (''client:'' @ c)) conditions_keys"
  by (simp add: getConditions_def getConditions_loop_eq map_fst_map_filter_Pair
      hasAttribute_getAttribute)

text \<open>
  C12: the keys the scan returns are the catalogue keys whose \<open>client:\<close> attribute is
  present, in catalogue order; each names an evaluator of \<open>Conditions.map\<close> (so the test
  \<open>if (conditionFn)\<close> of \<open>hydrate\<close> always passes) and carries its attribute's value.
\<close>

theorem getConditions_keys:
  "map fst (getConditions node) =
     filter (\<lambda>c. hasAttribute node (''client:'' @ c)) conditions_keys \<and>
   (\<forall>(k, v) \<in> set (getConditions node).
      Conditions_map k \<noteq> None \<and> getAttribute node (''client:'' @ k) = Some v)"
proof (rule conjI)
  show "map fst (getConditions node) =
          filter (\<lambda>c. hasAttribute node (''client:'' @ c)) conditions_keys"
    by (rule map_fst_getConditions)
  show "\<forall>(k, v) \<in> set (getConditions node).
          Conditions_map k \<noteq> None \<and> getAttribute node (''client:'' @ k) = Some v"
    by (auto simp: getConditions_unfold Conditions_map_def split: option.splits)
qed

text \<open>C13: \<open>hasConditions\<close> holds exactly when one of the three attributes is present.\<close>

theorem hasConditions_iff:
  "hasConditions node \<longleftrightarrow>
     hasAttribute node ''client:idle'' \<or> hasAttribute node ''client:visible'' \<or>
     hasAttribute node ''client:media''"
  by (auto simp: hasConditions_def getConditions_unfold hasAttribute_getAttribute
      split: option.splits)

section \<open>The evaluators\<close>

lemma waitForMedia_None_iff:
  "waitForMedia p q = None \<longleftrightarrow> q = [] \<or> \<not> has_matchMedia p \<or> matchMedia_matches p q"
  by (auto simp: waitForMedia_def)

lemma waitForMedia_Some_iff:
  "waitForMedia p q = Some w \<longleftrightarrow>
     q \<noteq> [] \<and> has_matchMedia p \<and> \<not> matchMedia_matches p q \<and> w = MediaWait q False"
  by (auto simp: waitForMedia_def)

section \<open>Resolution of the wait primitives\<close>

text \<open>One callback is one step of the reference specification.\<close>

lemma resolved_after_Nil [simp]: "resolved_after [] w = resolved w"
  by (cases w) auto

lemma resolved_after_Cons:
  "resolved_after (e # es) w = resolved_after es (wait_step e w)"
  by (cases w; cases e) auto

text \<open>
  After any sequence of callbacks a wait primitive is resolved exactly when the
  reference specification says: the idle promise when both the idle slot and the load
  have happened (or were not needed), the visibility promise when an intersecting
  report reached a live observer, the media promise when its query changed to matching.
\<close>

lemma resolved_fold_wait_step:
  "resolved (fold wait_step es w) \<longleftrightarrow> resolved_after es w"
  by (induction es arbitrary: w) (simp_all add: resolved_after_Cons)

lemma fold_deliver:
  "fold deliver es ws = map (map_option (fold wait_step es)) ws"
  by (induction es arbitrary: ws)
     (simp_all add: deliver_def comp_def option.map_comp option.map_id0)

lemma settled_fold_deliver:
  "list_all settled (fold deliver es ws) \<longleftrightarrow>
     list_all (case_option True (resolved_after es)) ws"
  by (induction ws)
     (auto simp: fold_deliver settled_def resolved_fold_wait_step split: option.splits)

text \<open>
  C4: \<open>Promise.all\<close> over the conditions of an island resolves after a sequence of
  callbacks if and only if it resolves after any reordering of them: the join is an AND
  over the primitives that does not depend on the order in which they resolve.
\<close>

theorem Promise_all_order_independent:
  assumes "set es = set es'"
  shows "Promise_all (fold deliver es ws) \<longleftrightarrow> Promise_all (fold deliver es' ws)"
proof -
  have "resolved_after es = resolved_after es'"
  proof
    fix w show "resolved_after es w = resolved_after es' w"
      using assms by (cases w) simp_all
  qed
  then show ?thesis by (simp add: Promise_all_def settled_fold_deliver)
qed

text \<open>
  C11: the idle evaluator's promise resolves after a sequence of callbacks exactly when
  the idle slot has been granted (or \<open>requestIdleCallback\<close> is missing) and the
  page has loaded (or had already loaded when the evaluator ran), in either order.
\<close>

theorem waitForIdle_resolution:
  "Promise_all (fold deliver es [waitForIdle p]) \<longleftrightarrow>
     (\<not> has_requestIdleCallback p \<or> IdleCallback \<in> set es) \<and>
     (readyState_complete p \<or> LoadEvent \<in> set es)"
  by (simp add: Promise_all_def settled_fold_deliver waitForIdle_def)

lemma wait_step_visible_detached:
  "wait_step e (VisibleWait False True) = VisibleWait False True"
  by (cases e) auto

lemma visible_detached_stays:
  "fold wait_step es (VisibleWait False True) = VisibleWait False True"
  by (induction es) (simp_all add: wait_step_visible_detached)

text \<open>
  C7: the visibility evaluator fires once: from the freshly armed observer, any sequence
  of reports leaves it armed and unresolved, or detached and resolved, the latter
  exactly when some report was intersecting; it is never re-armed.
\<close>

theorem visible_fire_once:
  "fold wait_step es (VisibleWait True False) =
     (if Intersection True \<in> set es then VisibleWait False True else VisibleWait True False)"
proof (induction es)
  case Nil
  then show ?case by simp
next
  case (Cons e es)
  show ?case
  proof (cases "e = Intersection True")
    case True
    then show ?thesis by (simp add: visible_detached_stays)
  next
    case False
    then have "wait_step e (VisibleWait True False) = VisibleWait True False"
      by (cases e) auto
    with False Cons.IH show ?thesis by simp
  qed
qed

end
