(* ===== verification/Dom.thy ===== *)
theory Dom
  imports Prelude
begin

text \<open>
  The DOM subtree of an island and the promotion of dormant content,
  \<open>MiniIsland.getTemplates\<close> and \<open>MiniIsland.replaceTemplates\<close> of
  \<open>src/mini-island.js\<close> (lines 32--40).

  A node is a text node, an element (identity, tag name, attributes, children) or a
  \<open><template>\<close> element (identity, attributes, its light-DOM children, and the children
  of its \<open>content\<close> fragment).  A template's content is a separate document fragment: it
  is not among the template's children, so selectors do not see into it.  Identities
  model JavaScript object identity; \<open>replaceWith\<close> acts on the node object that the
  static \<open>NodeList\<close> of \<open>querySelectorAll\<close> holds, so the model replaces by identity.

  \<open>promote\<close> is the reference specification of promotion: one pass over the tree that
  puts the content of every \<open>template[data-island]\<close> in its place.
\<close>

section \<open>Nodes\<close>

datatype node =
    Text string
  | Element nid string attrs "node list"
  | Template nid attrs "node list" "node list"

text \<open>\<open>MiniIsland.attributes.dataIsland\<close>.\<close>

definition dataIsland :: string where
  "dataIsland = ''data-island''"

text \<open>Every node identity in a forest, template contents included, in tree order.\<close>

fun ids :: "node list \<Rightarrow> nid list" where
  "ids [] = []"
| "ids (Text s # ns) = ids ns"
| "ids (Element i t a cs # ns) = i # ids cs @ ids ns"
| "ids (Template i a cs ct # ns) = i # ids cs @ ids ct @ ids ns"

section \<open>The selector and the replacement\<close>

text \<open>
  \<open>querySelectorAll(`template[data-island]`)\<close> on the island: the matching descendants
  in tree order (pre-order), through element and template children, never into a
  template's content.
\<close>

fun select_templates :: "node list \<Rightarrow> nid list" where
  "select_templates [] = []"
| "select_templates (Text s # ns) = select_templates ns"
| "select_templates (Element i t a cs # ns) = select_templates cs @ select_templates ns"
| "select_templates (Template i a cs ct # ns) =
     (if hasAttribute a dataIsland then [i] else []) @
     select_templates cs @ select_templates ns"

text \<open>
  \<open>node.replaceWith(node.content)\<close> for the template with identity \<open>i\<close>: the template is
  replaced, at its position, by the children of its content fragment.  A template that
  is no longer in the island's tree (because an enclosing template was replaced before
  it) is replaced inside its detached parent, which changes nothing of the island.
\<close>

fun replaceWith_content :: "nid \<Rightarrow> node list \<Rightarrow> node list" where
  "replaceWith_content i [] = []"
| "replaceWith_content i (Text s # ns) = Text s # replaceWith_content i ns"
| "replaceWith_content i (Element j t a cs # ns) =
     Element j t a (replaceWith_content i cs) # replaceWith_content i ns"
| "replaceWith_content i (Template j a cs ct # ns) =
     (if j = i then ct @ replaceWith_content i ns
      else Template j a (replaceWith_content i cs) ct # replaceWith_content i ns)"

text \<open>\<open>replaceTemplates(templates)\<close>: \<open>for (const node of templates)\<close>, in list order.\<close>

definition replaceTemplates :: "nid list \<Rightarrow> node list \<Rightarrow> node list" where
  "replaceTemplates templates ns = fold replaceWith_content templates ns"

section \<open>The reference specification\<close>

text \<open>
  One pass: every \<open>template[data-island]\<close> of the light tree is replaced by its content;
  the content is not searched again, and whatever the light children of a replaced
  template held leaves the tree with it.
\<close>

fun promote :: "node list \<Rightarrow> node list" where
  "promote [] = []"
| "promote (Text s # ns) = Text s # promote ns"
| "promote (Element j t a cs # ns) = Element j t a (promote cs) # promote ns"
| "promote (Template j a cs ct # ns) =
     (if hasAttribute a dataIsland then ct @ promote ns
      else Template j a (promote cs) ct # promote ns)"

text \<open>The contents that a promotion would insert hold no dormant template themselves.\<close>

fun contents_marker_free :: "node list \<Rightarrow> bool" where
  "contents_marker_free [] = True"
| "contents_marker_free (Text s # ns) = contents_marker_free ns"
| "contents_marker_free (Element j t a cs # ns) =
     (contents_marker_free cs \<and> contents_marker_free ns)"
| "contents_marker_free (Template j a cs ct # ns) =
     ((if hasAttribute a dataIsland then select_templates ct = [] else contents_marker_free cs)
      \<and> contents_marker_free ns)"

text \<open>The text of a forest in document order (\<open>textContent\<close> of the light tree).\<close>

fun text_content :: "node list \<Rightarrow> string" where
  "text_content [] = []"
| "text_content (Text s # ns) = s @ text_content ns"
| "text_content (Element j t a cs # ns) = text_content cs @ text_content ns"
| "text_content (Template j a cs ct # ns) = text_content cs @ text_content ns"

section \<open>Properties of the replacement\<close>

lemma ids_append [simp]: "ids (xs @ ys) = ids xs @ ids ys"
  by (induction xs rule: ids.induct) auto

lemma select_templates_append [simp]:
  "select_templates (xs @ ys) = select_templates xs @ select_templates ys"
  by (induction xs rule: select_templates.induct) auto

lemma promote_append_eq [dom_simps]:
  "promote (xs @ ys) = promote xs @ promote ys"
  by (induction xs rule: promote.induct) auto

lemma select_subset_ids: "set (select_templates ns) \<subseteq> set (ids ns)"
  by (induction ns rule: select_templates.induct) auto

lemma replaceWith_content_append [dom_simps]:
  "replaceWith_content i (xs @ ys) = replaceWith_content i xs @ replaceWith_content i ys"
  by (induction i xs rule: replaceWith_content.induct) auto

lemma replaceWith_content_notin:
  "i \<notin> set (ids ns) \<Longrightarrow> replaceWith_content i ns = ns"
  by (induction i ns rule: replaceWith_content.induct) auto

lemma ids_replaceWith_content:
  "set (ids (replaceWith_content i ns)) \<subseteq> set (ids ns)"
  by (induction i ns rule: replaceWith_content.induct) auto

lemma replaceTemplates_Nil [simp]: "replaceTemplates [] ns = ns"
  by (simp add: replaceTemplates_def)

lemma replaceTemplates_append_ids:
  "replaceTemplates (ts1 @ ts2) ns = replaceTemplates ts2 (replaceTemplates ts1 ns)"
  by (simp add: replaceTemplates_def)

lemma replaceTemplates_append [dom_simps]:
  "replaceTemplates ts (xs @ ys) = replaceTemplates ts xs @ replaceTemplates ts ys"
  by (induction ts arbitrary: xs ys)
     (simp_all add: replaceTemplates_def dom_simps)

lemma replaceTemplates_disjoint:
  "set ts \<inter> set (ids ns) = {} \<Longrightarrow> replaceTemplates ts ns = ns"
  unfolding replaceTemplates_def
  by (rule fold_fixed) (auto intro: replaceWith_content_notin)

lemma ids_replaceTemplates:
  "set (ids (replaceTemplates ts ns)) \<subseteq> set (ids ns)"
  unfolding replaceTemplates_def
  by (induction ts arbitrary: ns) (auto dest: subsetD [OF ids_replaceWith_content])

lemma replaceTemplates_Element:
  "replaceTemplates ts [Element j t a cs] = [Element j t a (replaceTemplates ts cs)]"
  unfolding replaceTemplates_def
  by (induction ts arbitrary: cs) simp_all

lemma replaceTemplates_Template:
  "j \<notin> set ts \<Longrightarrow>
   replaceTemplates ts [Template j a cs ct] = [Template j a (replaceTemplates ts cs) ct]"
  unfolding replaceTemplates_def
  by (induction ts arbitrary: cs) simp_all

lemma replaceTemplates_Cons_split:
  assumes "set ts2 \<inter> set (ids [x]) = {}" and "set ts1 \<inter> set (ids ns) = {}"
    and "set ts2 \<inter> set (ids (replaceTemplates ts1 [x])) = {}"
  shows "replaceTemplates (ts1 @ ts2) (x # ns) = replaceTemplates ts1 [x] @ replaceTemplates ts2 ns"
proof -
  have "replaceTemplates (ts1 @ ts2) ([x] @ ns) =
        replaceTemplates ts2 (replaceTemplates ts1 [x] @ replaceTemplates ts1 ns)"
    by (simp only: replaceTemplates_append_ids replaceTemplates_append)
  also have "\<dots> = replaceTemplates ts1 [x] @ replaceTemplates ts2 ns"
    using assms by (simp add: dom_simps replaceTemplates_disjoint)
  finally show ?thesis by simp
qed

text \<open>
  The refinement of the replacement loop by the single-pass promotion, proved by
  computation induction along \<open>promote\<close>: the templates selected in one part of the
  forest have identities disjoint from every other part, so their replacements act
  there alone.
\<close>

lemma replace_loop_eq_promote:
  "distinct (ids ns) \<Longrightarrow> replaceTemplates (select_templates ns) ns = promote ns"
proof (induction ns rule: promote.induct)
  case 1
  then show ?case by simp
next
  case (2 s ns)
  then have "replaceTemplates (select_templates ns) ([Text s] @ ns) =
             [Text s] @ promote ns"
    by (simp only: replaceTemplates_append) (simp add: replaceTemplates_disjoint)
  then show ?case by simp
next
  case (3 j t a cs ns)
  have d: "set (ids cs) \<inter> set (ids ns) = {}" "distinct (ids cs)" "distinct (ids ns)"
    using "3.prems" by auto
  have "replaceTemplates (select_templates cs @ select_templates ns) (Element j t a cs # ns) =
        replaceTemplates (select_templates cs) [Element j t a cs] @
        replaceTemplates (select_templates ns) ns"
    using d select_subset_ids [of cs] select_subset_ids [of ns]
      ids_replaceTemplates [of "select_templates cs" cs] "3.prems"
    by (intro replaceTemplates_Cons_split) (auto simp: replaceTemplates_Element)
  with "3.IH" d show ?case by (simp add: replaceTemplates_Element)
next
  case (4 j a cs ct ns)
  have d: "set (ids cs) \<inter> set (ids ns) = {}" "set (ids ct) \<inter> set (ids ns) = {}"
    "set (ids cs) \<inter> set (ids ct) = {}" "distinct (ids cs)" "distinct (ids ns)"
    "j \<notin> set (ids cs)" "j \<notin> set (ids ct)" "j \<notin> set (ids ns)"
    using "4.prems" by auto
  show ?case
  proof (cases "hasAttribute a dataIsland")
    case True
    have "replaceTemplates [j] (Template j a cs ct # ns) = ct @ ns"
      using d by (simp add: replaceTemplates_def replaceWith_content_notin)
    moreover have "replaceTemplates (select_templates cs) (ct @ ns) = ct @ ns"
      using d select_subset_ids [of cs] by (intro replaceTemplates_disjoint) auto
    moreover have "replaceTemplates (select_templates ns) ct = ct"
      using d select_subset_ids [of ns] by (intro replaceTemplates_disjoint) auto
    then have "replaceTemplates (select_templates ns) (ct @ ns) =
               ct @ replaceTemplates (select_templates ns) ns"
      by (simp add: dom_simps)
    ultimately have "replaceTemplates ([j] @ select_templates cs @ select_templates ns)
                       (Template j a cs ct # ns) = ct @ promote ns"
      using True "4.IH"(1) d by (simp only: replaceTemplates_append_ids)
    with True show ?thesis by simp
  next
    case False
    have nj: "j \<notin> set (select_templates cs)"
      using d select_subset_ids [of cs] by auto
    have "replaceTemplates (select_templates cs @ select_templates ns) (Template j a cs ct # ns) =
          replaceTemplates (select_templates cs) [Template j a cs ct] @
          replaceTemplates (select_templates ns) ns"
      using d nj select_subset_ids [of cs] select_subset_ids [of ns]
        ids_replaceTemplates [of "select_templates cs" cs]
      by (intro replaceTemplates_Cons_split) (auto simp: replaceTemplates_Template)
    with False nj "4.IH"(2,3) d show ?thesis by (simp add: replaceTemplates_Template)
  qed
qed

section \<open>Properties of the reference promotion\<close>

lemma promote_ids:
  "distinct (ids ns) \<Longrightarrow> distinct (ids (promote ns)) \<and> set (ids (promote ns)) \<subseteq> set (ids ns)"
  by (induction ns rule: promote.induct) (auto 4 3)

lemma select_promote_marker_free:
  "contents_marker_free ns \<Longrightarrow> select_templates (promote ns) = []"
  by (induction ns rule: promote.induct) auto

lemma promote_flat_templates:
  "list_all (\<lambda>(i, a, cs, ct). hasAttribute a dataIsland) ts \<Longrightarrow>
   promote (map (\<lambda>(i, a, cs, ct). Template i a cs ct) ts) = concat (map (\<lambda>(i, a, cs, ct). ct) ts)"
  by (induction ts) (auto simp: dom_simps)

section \<open>Properties of the promotion the code performs\<close>

text \<open>
  C3: on a well-formed tree (no node identity occurs twice), the sequential
  \<open>replaceWith\<close> loop over the static \<open>querySelectorAll\<close> list computes the
  single-pass promotion: each dormant template of the light tree is replaced in place
  by its content, in document order.
\<close>

theorem replaceTemplates_promote:
  "distinct (ids ns) \<Longrightarrow> replaceTemplates (select_templates ns) ns = promote ns"
  by (rule replace_loop_eq_promote)

text \<open>
  C14: the code's promotion keeps the tree well formed: node identities stay
  distinct (no content is inserted twice), and no identity is created.
\<close>

theorem replaceTemplates_keeps_ids:
  assumes "distinct (ids ns)"
  shows "distinct (ids (replaceTemplates (select_templates ns) ns)) \<and>
         set (ids (replaceTemplates (select_templates ns) ns)) \<subseteq> set (ids ns)"
  using promote_ids [OF assms] by (simp add: replace_loop_eq_promote [OF assms])

text \<open>
  C15: when the dormant contents do not themselves hold dormant templates, no
  \<open>template[data-island]\<close> is left after the code's promotion.
\<close>

theorem replaceTemplates_no_marker_left:
  assumes "distinct (ids ns)" and "contents_marker_free ns"
  shows "select_templates (replaceTemplates (select_templates ns) ns) = []"
  using select_promote_marker_free [OF assms(2)] by (simp add: replace_loop_eq_promote [OF assms(1)])

text \<open>
  C16: dormant fragments side by side are promoted by the code in document order: the
  result is their contents one after the other, each content in its own order, the
  first fragment's first.
\<close>

theorem replaceTemplates_fragments_in_order:
  assumes "distinct (ids (map (\<lambda>(i, a, cs, ct). Template i a cs ct) ts))"
    and "list_all (\<lambda>(i, a, cs, ct). hasAttribute a dataIsland) ts"
  shows "replaceTemplates (select_templates (map (\<lambda>(i, a, cs, ct). Template i a cs ct) ts))
           (map (\<lambda>(i, a, cs, ct). Template i a cs ct) ts) =
         concat (map (\<lambda>(i, a, cs, ct). ct) ts)"
  using promote_flat_templates [OF assms(2)] by (simp add: replace_loop_eq_promote [OF assms(1)])

end
