(* ===== verification/Island.thy ===== *)
theory Island
  imports Conditions Dom
begin

text \<open>
  The hydration controller, class \<open>MiniIsland\<close> of \<open>src/mini-island.js\<close> (lines 1--41).

  \<open>hydrate\<close> is an \<open>async\<close> method: its body up to \<open>await Promise.all(conditions)\<close>
  runs synchronously inside \<open>connectedCallback\<close> (\<open>hydrate_start\<close>), the rest runs later
  as the continuation of the \<open>await\<close> (\<open>hydrate_resume\<close>).  Every call of
  \<open>connectedCallback\<close> starts its own \<open>hydrate\<close> call, so the island keeps the list of
  calls still suspended at the \<open>await\<close> (\<open>jobs\<close>, each the \<open>conditions\<close> array of its
  call) and the number of calls that have run to the end (\<open>promotions\<close>, a ghost
  counter of the proofs with no variable of the code behind it).

  The browser drives the island by \<open>island_step\<close>: a callback reaches every pending
  primitive, or a suspended call whose \<open>Promise.all\<close> has resolved resumes.  The host
  may also fire \<open>connectedCallback\<close> again (\<open>host_step\<close>), which the code does not
  guard against.
\<close>

section \<open>State\<close>

record island =
  island_attrs :: attrs
  island_children :: "node list"
  jobs :: "wait option list list"
  promotions :: nat

text \<open>\<open>MiniIsland.tagName\<close>.\<close>

definition tagName :: string where
  "tagName = ''mini-island''"

text \<open>A freshly created element, before the host connects it.\<close>

definition new_island :: "attrs \<Rightarrow> node list \<Rightarrow> island" where
  "new_island a cs = \<lparr>island_attrs = a, island_children = cs, jobs = [], promotions = 0\<rparr>"

section \<open>Operations\<close>

text \<open>
  The loop of \<open>hydrate\<close> over \<open>conditionAttributesMap\<close>: look the evaluator up in
  \<open>Conditions.map\<close> and, if there is one, push what it returns (a promise or
  \<open>undefined\<close>) onto \<open>conditions\<close>.
\<close>

fun hydrate_loop ::
  "platform \<Rightarrow> (string \<times> string) list \<Rightarrow> wait option list \<Rightarrow> wait option list" where
  "hydrate_loop p [] conditions = conditions"
| "hydrate_loop p ((condition, v) # m) conditions =
     hydrate_loop p m
       (case Conditions_map condition of
          None \<Rightarrow> conditions
        | Some c \<Rightarrow> conditions @ [conditionFn c p v])"

text \<open>
  \<open>connectedCallback\<close> and the synchronous part of \<open>hydrate\<close>: scan the attributes,
  start every evaluator, and suspend at \<open>await Promise.all(conditions)\<close>.
\<close>

definition hydrate_start :: "platform \<Rightarrow> island \<Rightarrow> island" where
  "hydrate_start p s =
     (let conditionAttributesMap = getConditions (island_attrs s);
          conditions = hydrate_loop p conditionAttributesMap []
      in s\<lparr>jobs := jobs s @ [conditions]\<rparr>)"

text \<open>\<open>getTemplates()\<close>: the static list of \<open>template[data-island]\<close> descendants.\<close>

definition getTemplates :: "node list \<Rightarrow> nid list" where
  "getTemplates cs = select_templates cs"

text \<open>
  The continuation of the \<open>await\<close> of the suspended call number \<open>k\<close>:
  \<open>replaceTemplates(getTemplates())\<close>.
\<close>

definition hydrate_resume :: "nat \<Rightarrow> island \<Rightarrow> island" where
  "hydrate_resume k s =
     (let relevantChildTemplates = getTemplates (island_children s)
      in s\<lparr>jobs := take k (jobs s) @ drop (Suc k) (jobs s),
           island_children := replaceTemplates relevantChildTemplates (island_children s),
           promotions := Suc (promotions s)\<rparr>)"

text \<open>A browser callback reaches the primitives of every suspended call.\<close>

definition island_event :: "event \<Rightarrow> island \<Rightarrow> island" where
  "island_event e s = s\<lparr>jobs := map (deliver e) (jobs s)\<rparr>"

text \<open>The island after the host has connected it once.\<close>

definition connected :: "platform \<Rightarrow> attrs \<Rightarrow> node list \<Rightarrow> island" where
  "connected p a cs = hydrate_start p (new_island a cs)"

section \<open>Steps\<close>

inductive island_step :: "platform \<Rightarrow> island \<Rightarrow> island \<Rightarrow> bool" for p where
  callback: "island_step p s (island_event e s)"
| resume: "k < length (jobs s) \<Longrightarrow> Promise_all (jobs s ! k) \<Longrightarrow>
     island_step p s (hydrate_resume k s)"

inductive host_step :: "platform \<Rightarrow> island \<Rightarrow> island \<Rightarrow> bool" for p where
  browser: "island_step p s t \<Longrightarrow> host_step p s t"
| reconnect: "host_step p s (hydrate_start p s)"

text \<open>The three phases of the specification, read off the state.\<close>

datatype phase = Pending | Waiting | Hydrated

definition phase_of :: "island \<Rightarrow> phase" where
  "phase_of s =
     (if 0 < promotions s then Hydrated else if jobs s = [] then Pending else Waiting)"


section \<open>Auxiliary definitions of the proofs\<close>

text \<open>The invariant of a single activation.\<close>

definition activation_inv :: "platform \<Rightarrow> attrs \<Rightarrow> node list \<Rightarrow> island \<Rightarrow> bool" where
  "activation_inv p a cs s \<longleftrightarrow>
     (promotions s = 0 \<and> (\<exists>es. jobs s = [fold deliver es (hydrate_loop p (getConditions a) [])])
        \<and> island_children s = cs) \<or>
     (promotions s = 1 \<and> jobs s = [] \<and> island_children s = replaceTemplates (getTemplates cs) cs)"

text \<open>One callback of each kind, the media change for the island's own query.\<close>

definition conditions_met :: "platform \<Rightarrow> attrs \<Rightarrow> event list \<Rightarrow> bool" where
  "conditions_met p a es \<longleftrightarrow>
     (hasAttribute a ''client:idle'' \<longrightarrow>
        (\<not> has_requestIdleCallback p \<or> IdleCallback \<in> set es) \<and>
        (readyState_complete p \<or> LoadEvent \<in> set es)) \<and>
     (hasAttribute a ''client:visible'' \<longrightarrow>
        \<not> has_IntersectionObserver p \<or> Intersection True \<in> set es) \<and>
     (case getAttribute a ''client:media'' of
        None \<Rightarrow> True
      | Some q \<Rightarrow> q = [] \<or> \<not> has_matchMedia p \<or> matchMedia_matches p q \<or>
                  MediaChange q True \<in> set es)"

text \<open>A dormant template whose content holds another dormant template.\<close>

definition nested_dormant :: "node list" where
  "nested_dormant =
     [Template 1 [(dataIsland, [])] [] [Template 2 [(dataIsland, [])] [] [Text ''x'']]]"

text \<open>An island without conditions holding a nested island with a dormant template.\<close>

definition nested_island_tree :: "node list" where
  "nested_island_tree =
     [Element 5 tagName [(''client:visible'', [])] [Template 6 [(dataIsland, [])] [] [Text ''inner'']]]"

section \<open>Runs of a single activation\<close>

lemma hydrate_loop_append:
  "hydrate_loop p (m1 @ m2) conds = hydrate_loop p m2 (hydrate_loop p m1 conds)"
  by (induction p m1 conds rule: hydrate_loop.induct) simp_all

lemma hydrate_loop_getConditions:
  "hydrate_loop p (getConditions a) [] =
     (case getAttribute a ''client:idle'' of None \<Rightarrow> [] | Some v \<Rightarrow> [waitForIdle p]) @
     (case getAttribute a ''client:visible'' of None \<Rightarrow> [] | Some v \<Rightarrow> [waitForVisible p]) @
     (case getAttribute a ''client:media'' of None \<Rightarrow> [] | Some v \<Rightarrow> [waitForMedia p v])"
  by (simp add: getConditions_unfold hydrate_loop_append Conditions_map_def
      split: option.splits)

lemma jobs_connected:
  "jobs (connected p a cs) = [hydrate_loop p (getConditions a) []]"
  by (simp add: connected_def hydrate_start_def new_island_def)

lemma island_connected [simp]:
  "island_children (connected p a cs) = cs" "promotions (connected p a cs) = 0"
  "island_attrs (connected p a cs) = a"
  by (simp_all add: connected_def hydrate_start_def new_island_def)

lemma fold_island_event:
  "jobs (fold island_event es s) = map (fold deliver es) (jobs s) \<and>
   island_children (fold island_event es s) = island_children s \<and>
   promotions (fold island_event es s) = promotions s"
  by (induction es arbitrary: s) (simp_all add: island_event_def comp_def)

lemma island_steps_events: "(island_step p)\<^sup>*\<^sup>* s (fold island_event es s)"
proof (induction es arbitrary: s)
  case Nil
  then show ?case by simp
next
  case (Cons e es)
  have "island_step p s (island_event e s)" by (rule island_step.callback)
  with Cons.IH [of "island_event e s"] show ?case
    by (simp add: converse_rtranclp_into_rtranclp)
qed

lemma activation_inv_connected: "activation_inv p a cs (connected p a cs)"
  unfolding activation_inv_def jobs_connected
  by (rule disjI1) (auto intro: exI [of _ "[]"])

lemma activation_inv_step:
  assumes "island_step p s t" and "activation_inv p a cs s"
  shows "activation_inv p a cs t"
  using assms
proof (induction rule: island_step.induct)
  case (callback s e)
  then show ?case
    unfolding activation_inv_def
    by (auto simp: island_event_def intro: exI [of _ "_ @ [e]"])
next
  case (resume k s)
  then show ?case
    by (auto simp: activation_inv_def hydrate_resume_def)
qed

lemma activation_inv_reachable:
  "(island_step p)\<^sup>*\<^sup>* (connected p a cs) s \<Longrightarrow> activation_inv p a cs s"
  by (induction rule: rtranclp_induct) (auto intro: activation_inv_connected activation_inv_step)

section \<open>Properties of hydration\<close>

text \<open>
  C19: the join of a freshly connected island has resolved at once exactly when
  each declared condition is satisfied on the spot: idle needs no idle callback and a
  loaded page, visible needs a missing observer, media an empty query, a missing
  \<open>matchMedia\<close> or a query that matches now.
\<close>

theorem connected_ready_iff:
  "Promise_all (hydrate_loop p (getConditions a) []) \<longleftrightarrow>
     (hasAttribute a ''client:idle'' \<longrightarrow>
        \<not> has_requestIdleCallback p \<and> readyState_complete p) \<and>
     (hasAttribute a ''client:visible'' \<longrightarrow> \<not> has_IntersectionObserver p) \<and>
     (\<forall>q. getAttribute a ''client:media'' = Some q \<longrightarrow>
        q = [] \<or> \<not> has_matchMedia p \<or> matchMedia_matches p q)"
  by (auto simp: hydrate_loop_getConditions hasAttribute_getAttribute wait_simps
      split: option.splits)

lemma resume_connected:
  assumes "Promise_all (hydrate_loop p (getConditions a) [])"
  shows "island_step p (connected p a cs) (hydrate_resume 0 (connected p a cs)) \<and>
         phase_of (hydrate_resume 0 (connected p a cs)) = Hydrated \<and>
         island_children (hydrate_resume 0 (connected p a cs)) =
           replaceTemplates (getTemplates cs) cs"
proof -
  have "island_step p (connected p a cs) (hydrate_resume 0 (connected p a cs))"
    using assms by (intro island_step.resume) (simp_all add: jobs_connected)
  then show ?thesis
    by (simp add: hydrate_resume_def phase_of_def)
qed

text \<open>
  C2: after the host connects an island once, however the browser's callbacks and
  the resumption interleave, promotion runs at most once; before it the island's
  children are untouched, after it no call is left suspended and the children are
  the result of \<open>replaceTemplates(getTemplates())\<close> on the original tree.
\<close>

theorem single_activation_promotes_once:
  assumes "(island_step p)\<^sup>*\<^sup>* (connected p a cs) s"
  shows "promotions s \<le> 1 \<and>
         (promotions s = 0 \<longrightarrow> island_children s = cs) \<and>
         (promotions s = 1 \<longrightarrow> jobs s = [] \<and>
            island_children s = replaceTemplates (getTemplates cs) cs)"
  using activation_inv_reachable [OF assms] by (auto simp: activation_inv_def)

text \<open>
  C1: the promotion step happens only when every primitive that
  \<open>connectedCallback\<close> started is resolved by the callbacks delivered so far (AND over
  all declared conditions).
\<close>

theorem promotion_needs_all_conditions:
  assumes "(island_step p)\<^sup>*\<^sup>* (connected p a cs) s" and "island_step p s t"
    and "promotions s < promotions t"
  shows "\<exists>es. jobs s = [fold deliver es (hydrate_loop p (getConditions a) [])] \<and>
     list_all (case_option True (resolved_after es)) (hydrate_loop p (getConditions a) [])"
  using assms(2,3) activation_inv_reachable [OF assms(1)]
proof (cases rule: island_step.cases)
  case (callback e)
  with assms(3) show ?thesis by (simp add: island_event_def)
next
  case (resume k)
  with activation_inv_reachable [OF assms(1)] obtain es
    where "jobs s = [fold deliver es (hydrate_loop p (getConditions a) [])]"
    by (auto simp: activation_inv_def)
  with resume show ?thesis
    by (auto simp: Promise_all_def settled_fold_deliver)
qed

text \<open>
  C6: an island that declares no condition suspends on an empty
  \<open>Promise.all\<close>, which has already resolved: the very next step may promote.  The
  promotion is not part of \<open>connectedCallback\<close> itself (the island is still
  \<open>Waiting\<close> when it returns); it runs as the continuation of the \<open>await\<close>.
\<close>

theorem no_conditions_hydrate_at_once:
  assumes "\<not> hasConditions a"
  shows "jobs (connected p a cs) = [[]] \<and> phase_of (connected p a cs) = Waiting \<and>
         island_step p (connected p a cs) (hydrate_resume 0 (connected p a cs)) \<and>
         phase_of (hydrate_resume 0 (connected p a cs)) = Hydrated \<and>
         island_children (hydrate_resume 0 (connected p a cs)) =
           replaceTemplates (getTemplates cs) cs"
proof -
  have j: "hydrate_loop p (getConditions a) [] = []"
    using assms by (simp add: hasConditions_def)
  then have "Promise_all (hydrate_loop p (getConditions a) [])"
    by (simp add: Promise_all_def)
  with j show ?thesis
    using resume_connected by (simp add: jobs_connected phase_of_def)
qed

text \<open>
  C8: without \<open>IntersectionObserver\<close>, an island that declares only
  \<open>client:visible\<close> can promote at once: the condition is skipped.
\<close>

theorem visible_without_observer_hydrates:
  assumes "getConditions a = [(''visible'', v)]" and "\<not> has_IntersectionObserver p"
  shows "island_step p (connected p a cs) (hydrate_resume 0 (connected p a cs)) \<and>
         phase_of (hydrate_resume 0 (connected p a cs)) = Hydrated"
proof -
  have "Promise_all (hydrate_loop p (getConditions a) [])"
    using assms by (simp add: Conditions_map_def wait_simps)
  then show ?thesis using resume_connected by blast
qed

text \<open>
  C9: an island that declares \<open>client:media\<close> with an empty value can
  promote at once, whatever the platform.
\<close>

theorem media_without_query_hydrates:
  assumes "getConditions a = [(''media'', [])]"
  shows "island_step p (connected p a cs) (hydrate_resume 0 (connected p a cs)) \<and>
         phase_of (hydrate_resume 0 (connected p a cs)) = Hydrated"
proof -
  have "Promise_all (hydrate_loop p (getConditions a) [])"
    using assms by (simp add: Conditions_map_def wait_simps)
  then show ?thesis using resume_connected by blast
qed

text \<open>
  C5: for every sequence of browser callbacks after the host connects an island, the
  island's \<open>Promise.all\<close> has resolved exactly when the declared conditions are met
  in the sense of the specification; then the promotion step is enabled and yields the
  promoted tree.  No declared condition blocks once its events have come, and none
  resolves before.
\<close>

theorem conditions_met_hydrates:
  "(island_step p)\<^sup>*\<^sup>* (connected p a cs) (fold island_event es (connected p a cs)) \<and>
   jobs (fold island_event es (connected p a cs)) =
     [fold deliver es (hydrate_loop p (getConditions a) [])] \<and>
   (Promise_all (fold deliver es (hydrate_loop p (getConditions a) [])) \<longleftrightarrow>
      conditions_met p a es) \<and>
   (conditions_met p a es \<longrightarrow>
      island_step p (fold island_event es (connected p a cs))
        (hydrate_resume 0 (fold island_event es (connected p a cs))) \<and>
      island_children (hydrate_resume 0 (fold island_event es (connected p a cs))) =
        replaceTemplates (getTemplates cs) cs)"
proof -
  let ?s = "fold island_event es (connected p a cs)"
  let ?J = "fold deliver es (hydrate_loop p (getConditions a) [])"
  have js: "jobs ?s = [?J]" and cs: "island_children ?s = cs"
    using fold_island_event [of es "connected p a cs"] by (simp_all add: jobs_connected)
  have iff: "Promise_all ?J \<longleftrightarrow> conditions_met p a es"
    by (auto simp: Promise_all_def settled_fold_deliver hydrate_loop_getConditions
        conditions_met_def hasAttribute_getAttribute wait_simps split: option.splits)
  have "conditions_met p a es \<longrightarrow> island_step p ?s (hydrate_resume 0 ?s)"
    using js iff by (auto intro: island_step.resume)
  with js cs iff island_steps_events [of p "connected p a cs" es] show ?thesis
    by (simp add: hydrate_resume_def)
qed

text \<open>
  C10: an island that declares a non-empty \<open>client:media\<close> query that does not
  match stays \<open>Waiting\<close>; its join resolves after a sequence of callbacks exactly
  when one of them is a change of that query to matching.
\<close>

theorem media_waits_for_match:
  assumes "getConditions a = [(''media'', q)]" and "q \<noteq> []" and "has_matchMedia p"
    and "\<not> matchMedia_matches p q"
  shows "jobs (connected p a cs) = [[Some (MediaWait q False)]] \<and>
         phase_of (connected p a cs) = Waiting \<and>
         (Promise_all (fold deliver es [Some (MediaWait q False)]) \<longleftrightarrow>
            MediaChange q True \<in> set es)"
  using assms
  by (simp add: jobs_connected phase_of_def Conditions_map_def wait_simps
      settled_fold_deliver)

text \<open>
  C17: the code does not guard against a second \<open>connectedCallback\<close>: a
  reconnected island runs a second promotion, which promotes the dormant templates
  that the first promotion inserted from a template's content.
\<close>

theorem reconnect_promotes_twice:
  "\<exists>t. (host_step p)\<^sup>*\<^sup>* (connected p [] nested_dormant) t \<and> promotions t = 2 \<and>
       island_children t = [Text ''x'']"
proof -
  let ?s0 = "connected p [] nested_dormant"
  let ?s1 = "hydrate_resume 0 ?s0"
  let ?s2 = "hydrate_start p ?s1"
  let ?s3 = "hydrate_resume 0 ?s2"
  have ready: "Promise_all (hydrate_loop p (getConditions []) [])"
    by (simp add: getConditions_unfold Promise_all_def)
  have "host_step p ?s0 ?s1"
    using ready by (intro host_step.browser island_step.resume) (simp_all add: jobs_connected)
  moreover have "host_step p ?s1 ?s2" by (rule host_step.reconnect)
  moreover have "host_step p ?s2 ?s3"
    using ready
    by (intro host_step.browser island_step.resume)
       (simp_all add: jobs_connected hydrate_resume_def hydrate_start_def)
  ultimately have "(host_step p)\<^sup>*\<^sup>* ?s0 ?s3"
    by (meson rtranclp.rtrancl_into_rtrancl rtranclp.rtrancl_refl)
  moreover have "promotions ?s3 = 2 \<and> island_children ?s3 = [Text ''x'']"
    by (simp add: hydrate_resume_def hydrate_start_def getTemplates_def nested_dormant_def
        dataIsland_def replaceTemplates_def)
  ultimately show ?thesis by blast
qed

text \<open>
  C18: \<open>querySelectorAll\<close> looks into nested islands: an outer island without
  conditions promotes the dormant template of an inner \<open>mini-island\<close> whose own
  \<open>client:visible\<close> condition is still pending.
\<close>

theorem outer_island_promotes_nested:
  assumes "has_IntersectionObserver p"
  shows "\<not> Promise_all (hd (jobs (connected p [(''client:visible'', [])]
                                   [Template 6 [(dataIsland, [])] [] [Text ''inner'']]))) \<and>
         island_step p (connected p [] nested_island_tree)
                       (hydrate_resume 0 (connected p [] nested_island_tree)) \<and>
         island_children (hydrate_resume 0 (connected p [] nested_island_tree)) =
           [Element 5 tagName [(''client:visible'', [])] [Text ''inner'']]"
proof -
  have ready: "Promise_all (hydrate_loop p (getConditions []) [])"
    by (simp add: getConditions_unfold Promise_all_def)
  have "island_step p (connected p [] nested_island_tree)
                      (hydrate_resume 0 (connected p [] nested_island_tree))"
    using ready by (intro island_step.resume) (simp_all add: jobs_connected)
  moreover have "island_children (hydrate_resume 0 (connected p [] nested_island_tree)) =
           [Element 5 tagName [(''client:visible'', [])] [Text ''inner'']]"
    by (simp add: hydrate_resume_def getTemplates_def nested_island_tree_def dataIsland_def
        replaceTemplates_def)
  moreover have "\<not> Promise_all (hd (jobs (connected p [(''client:visible'', [])]
                                   [Template 6 [(dataIsland, [])] [] [Text ''inner'']])))"
    using assms by (simp add: jobs_connected getConditions_unfold Conditions_map_def wait_simps)
  ultimately show ?thesis by blast
qed

end
