(* ===== verification/Spec2Isabelle.thy ===== *)
theory Spec2Isabelle
  imports Island
begin

text \<open>
  \<^bold>\<open>A verified model of \<open>src/mini-island.js\<close>.\<close>

  \<^bold>\<open>The program.\<close>  One file defines a custom element \<open><mini-island>\<close> (class
  \<open>MiniIsland\<close>) and a registry of hydration conditions (class \<open>Conditions\<close>), and
  registers the element when \<open>window.customElements\<close> exists.  When the host connects an
  island, \<open>connectedCallback\<close> calls the \<open>async\<close> method \<open>hydrate\<close>: it scans the
  island's \<open>client:idle\<close>, \<open>client:visible\<close> and \<open>client:media\<close> attributes
  (\<open>Conditions.getConditions\<close>), starts the evaluator of each (\<open>waitForIdle\<close>,
  \<open>waitForVisible\<close>, \<open>waitForMedia\<close>), awaits \<open>Promise.all\<close> of what they return, and
  then replaces every \<open>template[data-island]\<close> descendant by its content
  (\<open>getTemplates\<close>, \<open>replaceTemplates\<close>).

  \<^bold>\<open>Theories.\<close>
  \<^item> \<open>Prelude\<close>: the types \<open>nid\<close> (node identity) and \<open>attrs\<close> (attribute list), the
    DOM attribute queries \<open>hasAttribute\<close>/\<open>getAttribute\<close> (platform API, not code of
    the repository), the collections \<open>wait_simps\<close> and \<open>dom_simps\<close>, generic lemmas.
  \<^item> \<open>Conditions\<close> (source lines 43--132): \<open>conditions_keys\<close> and \<open>Conditions_map\<close>
    (\<open>Conditions.map\<close>), \<open>getConditions_loop\<close>/\<open>getConditions\<close>, \<open>hasConditions\<close>;
    the record \<open>platform\<close> of what the evaluators test in \<open>window\<close> and \<open>document\<close>;
    the datatype \<open>wait\<close> of the promises the evaluators return, with the state of their
    callbacks; \<open>waitForIdle\<close>, \<open>waitForVisible\<close>, \<open>waitForMedia\<close>, \<open>conditionFn\<close>;
    the browser callbacks as \<open>event\<close>s and \<open>wait_step\<close>, what the registered callbacks do
    with them (resolve, \<open>unobserve\<close>); \<open>resolved\<close>, \<open>settled\<close> and \<open>Promise_all\<close>, the
    promise states and the join.  Lemmas: the scan returns the present catalogue keys
    in order, each valid and carrying its value (C12), \<open>hasConditions\<close> (C13);
    resolution after any callback sequence equals the order-free reference
    \<open>resolved_after\<close>, hence the join is order independent (C4), the idle promise is an
    AND of load and idle slot (C11), the observer fires once (C7).
  \<^item> \<open>Dom\<close> (source lines 32--40): nodes with identities (\<open>Text\<close>, \<open>Element\<close>,
    \<open>Template\<close> with its light children and its content fragment);
    \<open>select_templates\<close> is \<open>querySelectorAll('template[data-island]')\<close>,
    \<open>replaceWith_content\<close> is \<open>node.replaceWith(node.content)\<close> by identity,
    \<open>replaceTemplates\<close> the loop over the static list.  \<open>promote\<close> is the reference
    single-pass promotion; on trees with distinct identities the loop equals it (C3).
    Through that refinement the code's loop keeps identities distinct (C14), leaves no
    dormant template when the contents hold none (C15) and puts the fragments in
    document order (C16).
  \<^item> \<open>Island\<close> (source lines 1--41): the record \<open>island\<close> (attributes, children, the
    \<open>conditions\<close> arrays of the \<open>hydrate\<close> calls suspended at their \<open>await\<close>, and the
    number of completed calls, a ghost counter of the proofs); \<open>hydrate_loop\<close> and \<open>hydrate_start\<close> are
    \<open>connectedCallback\<close> with the synchronous part of \<open>hydrate\<close>, \<open>hydrate_resume\<close> the
    continuation of the \<open>await\<close>, \<open>island_event\<close> a browser callback; \<open>island_step\<close>
    is the browser's step relation, \<open>host_step\<close> adds a repeated \<open>connectedCallback\<close>;
    \<open>phase_of\<close> reads the specification's Pending/Waiting/Hydrated off the state.
    Lemmas: promotion only after every condition resolved (C1), at most once per
    activation and to the promoted tree (C2); after any callback sequence the join has
    resolved exactly when the specification's \<open>conditions_met\<close> holds, and then the
    promotion is enabled (C5); at once without conditions (C6), without an observer
    (C8), with an empty media query (C9), exactly on a matching media change (C10),
    exactly when each condition is satisfied on the spot (C19); two findings (C17, C18).
  \<^item> This theory: the module's bootstrap (source lines 134--138) as \<open>bootstrap\<close>, and a
    witness for every theorem with a hypothesis, on the concrete \<open>demo_platform\<close>.

  \<^bold>\<open>Asynchrony.\<close>  JavaScript is single-threaded; what is concurrent here is the
  interleaving of browser callbacks and resumptions, which \<open>island_step\<close> leaves
  arbitrary, and any callback may arrive at any time (a \<open>load\<close> after the page has
  loaded, a change to matching of any query): the environment over-approximates the
  browser, which is sound for the safety properties (C1, C2).  Progress is therefore
  stated for every callback sequence, not for one chosen run: C5 says the join resolves
  exactly when the sequence meets the declared conditions.  No fuel is needed: every
  operation is a terminating function, and non-termination of the program is a run that
  never takes the \<open>resume\<close> step; C10 shows that a media query which never matches
  keeps the island waiting.

  \<^bold>\<open>Plan.\<close>  Modelled first, because the program's behaviour rests on them: the
  join of the conditions and the one-shot promotion (C1, C2, C3), then the evaluators
  and their fallbacks (C4--C11, C19), the attribute scan (C12, C13), the DOM
  properties of the code's promotion (C14--C16), the two findings (C17, C18).
  Left for later: several islands on one page sharing the browser's
  callbacks (independence of islands, the nested-island finding in general form); the
  microtask order between the resolution of \<open>Promise.all\<close> and the continuation of
  the \<open>await\<close>; liveness under a fairness assumption on the browser (every enabled
  resumption is eventually taken); the re-entrancy finding for any number of
  reconnections; rule-inversion lemmas (\<open>inductive_cases\<close>) for the step relations.

  \<^bold>\<open>Not modelled.\<close>  The browser itself (event loop, microtask queue, layout,
  \<open>IntersectionObserver\<close> geometry, media-query evaluation) is represented only by the
  callbacks it delivers; \<open>platform\<close> fixes the capabilities when the evaluators run.
  Attributes are not validated (the code does not validate them either).  The element
  registry itself is not modelled; \<open>bootstrap\<close> is the module's decision to register.  \<open>console.error\<close> is the \<open>Logged_error\<close> value.
\<close>

section \<open>Module bootstrap\<close>

datatype registration = Registered string | Logged_error string

text \<open>
  \<open>if ('customElements' in window) customElements.define(MiniIsland.tagName, MiniIsland)
  else console.error(...)\<close>.
\<close>

definition bootstrap :: "platform \<Rightarrow> registration" where
  "bootstrap p =
     (if has_customElements p then Registered tagName
      else Logged_error ''Island cannot be initiated because Window.customElements is unavailable.'')"

text \<open>A concrete browser: every facility present, the page still loading, no query matching.\<close>

definition demo_platform :: platform where
  "demo_platform =
     \<lparr>readyState_complete = False, has_requestIdleCallback = True,
      has_IntersectionObserver = True, has_matchMedia = True,
      matchMedia_matches = (\<lambda>q. False), has_customElements = True\<rparr>"

text \<open>Two dormant fragments side by side, separated by a text node.\<close>

definition two_fragments :: "node list" where
  "two_fragments =
     [Template 1 [(dataIsland, [])] [] [Text ''F1''], Text '' '',
      Template 2 [(dataIsland, [])] [] [Text ''F2'']]"

section \<open>Witnesses\<close>

text \<open>
  Each theorem with a hypothesis applied at a concrete input on \<open>demo_platform\<close>,
  its hypotheses discharged by evaluation.
\<close>

theorem promotion_needs_all_conditions_witness:
  "\<exists>es. jobs (fold island_event [LoadEvent, IdleCallback]
                 (connected demo_platform [(''client:idle'', [])] [])) =
          [fold deliver es (hydrate_loop demo_platform (getConditions [(''client:idle'', [])]) [])] \<and>
        list_all (case_option True (resolved_after es))
          (hydrate_loop demo_platform (getConditions [(''client:idle'', [])]) [])"
proof -
  let ?s = "fold island_event [LoadEvent, IdleCallback] (connected demo_platform [(''client:idle'', [])] [])"
  have run: "(island_step demo_platform)\<^sup>*\<^sup>* (connected demo_platform [(''client:idle'', [])] []) ?s"
    by (rule island_steps_events)
  have js: "jobs ?s = [[Some (IdleWait True True)]]"
    using fold_island_event [of "[LoadEvent, IdleCallback]" "connected demo_platform [(''client:idle'', [])] []"]
    by (simp add: jobs_connected getConditions_unfold Conditions_map_def wait_simps demo_platform_def)
  have step: "island_step demo_platform ?s (hydrate_resume 0 ?s)"
    using js by (intro island_step.resume) (simp_all add: wait_simps)
  have lt: "promotions ?s < promotions (hydrate_resume 0 ?s)"
    by (simp add: hydrate_resume_def)
  show ?thesis by (rule promotion_needs_all_conditions [OF run step lt])
qed

theorem single_activation_promotes_once_witness:
  "promotions (hydrate_resume 0 (connected demo_platform [] nested_dormant)) = 1 \<and>
   jobs (hydrate_resume 0 (connected demo_platform [] nested_dormant)) = [] \<and>
   island_children (hydrate_resume 0 (connected demo_platform [] nested_dormant)) =
     replaceTemplates (getTemplates nested_dormant) nested_dormant"
proof -
  have "island_step demo_platform (connected demo_platform [] nested_dormant)
          (hydrate_resume 0 (connected demo_platform [] nested_dormant))"
    by (intro island_step.resume) (simp_all add: jobs_connected getConditions_unfold Promise_all_def)
  then have "(island_step demo_platform)\<^sup>*\<^sup>* (connected demo_platform [] nested_dormant)
          (hydrate_resume 0 (connected demo_platform [] nested_dormant))"
    by (rule r_into_rtranclp)
  then show ?thesis
    using single_activation_promotes_once by (simp add: hydrate_resume_def)
qed

theorem replaceTemplates_promote_witness:
  "distinct (ids nested_dormant) \<and>
   replaceTemplates (select_templates nested_dormant) nested_dormant = promote nested_dormant"
  using replaceTemplates_promote [of nested_dormant] by (simp add: nested_dormant_def)

theorem Promise_all_order_independent_witness:
  "set [LoadEvent, IdleCallback] = set [IdleCallback, LoadEvent] \<and>
   (Promise_all (fold deliver [LoadEvent, IdleCallback] [waitForIdle demo_platform]) \<longleftrightarrow>
    Promise_all (fold deliver [IdleCallback, LoadEvent] [waitForIdle demo_platform]))"
  using Promise_all_order_independent [of "[LoadEvent, IdleCallback]" "[IdleCallback, LoadEvent]"
      "[waitForIdle demo_platform]"]
  by auto

theorem no_conditions_hydrate_at_once_witness:
  "\<not> hasConditions [(''class'', ''card'')] \<and>
   jobs (connected demo_platform [(''class'', ''card'')] []) = [[]] \<and>
   phase_of (connected demo_platform [(''class'', ''card'')] []) = Waiting \<and>
   island_step demo_platform (connected demo_platform [(''class'', ''card'')] [])
     (hydrate_resume 0 (connected demo_platform [(''class'', ''card'')] [])) \<and>
   phase_of (hydrate_resume 0 (connected demo_platform [(''class'', ''card'')] [])) = Hydrated \<and>
   island_children (hydrate_resume 0 (connected demo_platform [(''class'', ''card'')] [])) =
     replaceTemplates (getTemplates []) []"
proof -
  have h: "\<not> hasConditions [(''class'', ''card'')]"
    by (simp add: hasConditions_def getConditions_unfold)
  show ?thesis using h no_conditions_hydrate_at_once [OF h] by simp
qed

theorem visible_without_observer_hydrates_witness:
  "getConditions [(''client:visible'', [])] = [(''visible'', [])] \<and>
   \<not> has_IntersectionObserver (demo_platform\<lparr>has_IntersectionObserver := False\<rparr>) \<and>
   island_step (demo_platform\<lparr>has_IntersectionObserver := False\<rparr>)
     (connected (demo_platform\<lparr>has_IntersectionObserver := False\<rparr>) [(''client:visible'', [])] [])
     (hydrate_resume 0 (connected (demo_platform\<lparr>has_IntersectionObserver := False\<rparr>)
        [(''client:visible'', [])] []))"
proof -
  have h: "getConditions [(''client:visible'', [])] = [(''visible'', [])]"
    by (simp add: getConditions_unfold)
  show ?thesis
    using h visible_without_observer_hydrates [OF h, of "demo_platform\<lparr>has_IntersectionObserver := False\<rparr>"]
    by simp
qed

theorem media_without_query_hydrates_witness:
  "getConditions [(''client:media'', [])] = [(''media'', [])] \<and>
   island_step demo_platform (connected demo_platform [(''client:media'', [])] [])
     (hydrate_resume 0 (connected demo_platform [(''client:media'', [])] []))"
proof -
  have h: "getConditions [(''client:media'', [])] = [(''media'', [])]"
    by (simp add: getConditions_unfold)
  show ?thesis using h media_without_query_hydrates [OF h, of demo_platform] by simp
qed

theorem media_waits_for_match_witness:
  "jobs (connected demo_platform [(''client:media'', ''(min-width: 800px)'')] []) =
     [[Some (MediaWait ''(min-width: 800px)'' False)]] \<and>
   \<not> Promise_all (fold deliver [MediaChange ''(min-width: 800px)'' False, Intersection True]
                       [Some (MediaWait ''(min-width: 800px)'' False)]) \<and>
   Promise_all (fold deliver [MediaChange ''(min-width: 800px)'' False,
                              MediaChange ''(min-width: 800px)'' True]
                       [Some (MediaWait ''(min-width: 800px)'' False)])"
proof -
  have h: "getConditions [(''client:media'', ''(min-width: 800px)'')] = [(''media'', ''(min-width: 800px)'')]"
    by (simp add: getConditions_unfold)
  have p: "has_matchMedia demo_platform" "\<not> matchMedia_matches demo_platform ''(min-width: 800px)''"
    by (simp_all add: demo_platform_def)
  note w = media_waits_for_match [OF h _ p]
  show ?thesis
    using w [of "[]" "[MediaChange ''(min-width: 800px)'' False, Intersection True]"]
      w [of "[]" "[MediaChange ''(min-width: 800px)'' False, MediaChange ''(min-width: 800px)'' True]"]
    by simp
qed

theorem getConditions_keys_witness:
  "map fst (getConditions [(''client:media'', ''print''), (''class'', ''x''), (''client:idle'', [])]) =
     [''idle'', ''media''] \<and>
   Conditions_map ''idle'' \<noteq> None \<and> Conditions_map ''media'' \<noteq> None \<and>
   getConditions [(''client:media'', ''print''), (''class'', ''x''), (''client:idle'', [])] =
     [(''idle'', []), (''media'', ''print'')]"
proof -
  have "map fst (getConditions [(''client:media'', ''print''), (''class'', ''x''), (''client:idle'', [])]) =
     filter (\<lambda>c. hasAttribute [(''client:media'', ''print''), (''class'', ''x''), (''client:idle'', [])]
       (''client:'' @ c)) conditions_keys"
    using getConditions_keys by blast
  moreover have "getConditions [(''client:media'', ''print''), (''class'', ''x''), (''client:idle'', [])] =
     [(''idle'', []), (''media'', ''print'')]"
    by (simp add: getConditions_unfold)
  ultimately show ?thesis by (simp add: conditions_keys_def Conditions_map_def)
qed

theorem waitForIdle_resolution_witness:
  "\<not> Promise_all (fold deliver [IdleCallback] [waitForIdle demo_platform]) \<and>
   Promise_all (fold deliver [IdleCallback, LoadEvent] [waitForIdle demo_platform]) \<and>
   Promise_all (fold deliver [IdleCallback] [waitForIdle (demo_platform\<lparr>readyState_complete := True\<rparr>)])"
  using waitForIdle_resolution [of "[IdleCallback]" demo_platform]
    waitForIdle_resolution [of "[IdleCallback, LoadEvent]" demo_platform]
    waitForIdle_resolution [of "[IdleCallback]" "demo_platform\<lparr>readyState_complete := True\<rparr>"]
  by (simp add: demo_platform_def)

theorem conditions_met_hydrates_witness:
  "conditions_met demo_platform [(''client:idle'', [])] [LoadEvent, IdleCallback] \<and>
   island_step demo_platform
     (fold island_event [LoadEvent, IdleCallback] (connected demo_platform [(''client:idle'', [])] two_fragments))
     (hydrate_resume 0 (fold island_event [LoadEvent, IdleCallback]
        (connected demo_platform [(''client:idle'', [])] two_fragments))) \<and>
   \<not> Promise_all (fold deliver [IdleCallback]
        (hydrate_loop demo_platform (getConditions [(''client:idle'', [])]) []))"
proof -
  have h: "conditions_met demo_platform [(''client:idle'', [])] [LoadEvent, IdleCallback]"
    by (simp add: conditions_met_def demo_platform_def)
  have n: "\<not> conditions_met demo_platform [(''client:idle'', [])] [IdleCallback]"
    by (simp add: conditions_met_def demo_platform_def)
  show ?thesis
    using h n conditions_met_hydrates [of demo_platform "[(''client:idle'', [])]" two_fragments
        "[LoadEvent, IdleCallback]"]
      conditions_met_hydrates [of demo_platform "[(''client:idle'', [])]" two_fragments "[IdleCallback]"]
    by blast
qed

theorem replaceTemplates_keeps_ids_witness:
  "distinct (ids two_fragments) \<and>
   distinct (ids (replaceTemplates (select_templates two_fragments) two_fragments)) \<and>
   set (ids (replaceTemplates (select_templates two_fragments) two_fragments)) \<subseteq> set (ids two_fragments)"
proof -
  have h: "distinct (ids two_fragments)" by (simp add: two_fragments_def)
  show ?thesis using h replaceTemplates_keeps_ids [OF h] by simp
qed

theorem replaceTemplates_no_marker_left_witness:
  "distinct (ids two_fragments) \<and> contents_marker_free two_fragments \<and>
   select_templates (replaceTemplates (select_templates two_fragments) two_fragments) = [] \<and>
   text_content (replaceTemplates (select_templates two_fragments) two_fragments) = ''F1 F2''"
proof -
  have h: "distinct (ids two_fragments)" "contents_marker_free two_fragments"
    by (simp_all add: two_fragments_def)
  have "text_content (replaceTemplates (select_templates two_fragments) two_fragments) = ''F1 F2''"
    by (simp add: two_fragments_def dataIsland_def replaceTemplates_def)
  then show ?thesis using h replaceTemplates_no_marker_left [OF h] by simp
qed

theorem replaceTemplates_fragments_in_order_witness:
  "distinct (ids (map (\<lambda>(i, a, cs, ct). Template i a cs ct)
      [(1::nat, [(dataIsland, [])], [], [Text ''F1'', Text ''a'']), (2, [(dataIsland, [])], [], [Text ''F2''])])) \<and>
   replaceTemplates (select_templates [Template 1 [(dataIsland, [])] [] [Text ''F1'', Text ''a''],
                                       Template 2 [(dataIsland, [])] [] [Text ''F2'']])
     [Template 1 [(dataIsland, [])] [] [Text ''F1'', Text ''a''], Template 2 [(dataIsland, [])] [] [Text ''F2'']] =
   [Text ''F1'', Text ''a'', Text ''F2'']"
  using replaceTemplates_fragments_in_order
    [of "[(1::nat, [(dataIsland, [])], [], [Text ''F1'', Text ''a'']), (2, [(dataIsland, [])], [], [Text ''F2''])]"]
  by simp

theorem outer_island_promotes_nested_witness:
  "has_IntersectionObserver demo_platform \<and>
   island_children (hydrate_resume 0 (connected demo_platform [] nested_island_tree)) =
     [Element 5 tagName [(''client:visible'', [])] [Text ''inner'']]"
proof -
  have h: "has_IntersectionObserver demo_platform" by (simp add: demo_platform_def)
  show ?thesis using h outer_island_promotes_nested [OF h] by simp
qed

theorem connected_ready_iff_witness:
  "\<not> Promise_all (hydrate_loop demo_platform (getConditions [(''client:visible'', [])]) []) \<and>
   Promise_all (hydrate_loop (demo_platform\<lparr>has_IntersectionObserver := False\<rparr>)
                  (getConditions [(''client:visible'', [])]) []) \<and>
   Promise_all (hydrate_loop demo_platform (getConditions [(''client:media'', [])]) [])"
  using connected_ready_iff [of demo_platform "[(''client:visible'', [])]"]
    connected_ready_iff [of "demo_platform\<lparr>has_IntersectionObserver := False\<rparr>" "[(''client:visible'', [])]"]
    connected_ready_iff [of demo_platform "[(''client:media'', [])]"]
  by (simp add: demo_platform_def)

end
